theory Spec2Isabelle
  imports Main "HOL-Library.Word"
begin

unbundle bit_operations_syntax

section \<open>Bytes, buffers and JavaScript numbers\<close>

text \<open>
  A Node \<open>Buffer\<close> is a sequence of bytes. The strings the reader passes around
  (\<open>'\x00\x00\xff'\<close>, \<open>String.fromCharCode(n)\<close>) only ever reach the transport through
  \<open>Buffer.from(s, 'ascii')\<close>, which keeps the low eight bits of every character code, so
  such binary strings are modelled as buffers too.
\<close>

type_synonym byte = "8 word"
type_synonym buffer = "byte list"

text \<open>
  The bitwise operators of JavaScript first convert their operands to 32-bit signed
  integers (\<open>ToInt32\<close>). Numbers are modelled as \<open>int\<close>: the sums and lengths that occur
  stay far below \<open>2 ^ 53\<close>, where the arithmetic of doubles is exact.
\<close>

definition to_int32 :: "int \<Rightarrow> int" where
  "to_int32 x = signed_take_bit 31 x"

definition js_and :: "int \<Rightarrow> int \<Rightarrow> int" where
  "js_and a b = to_int32 a AND to_int32 b"

definition js_shr :: "int \<Rightarrow> nat \<Rightarrow> int" where
  "js_shr a n = drop_bit (n mod 32) (to_int32 a)"

definition js_shl :: "int \<Rightarrow> nat \<Rightarrow> int" where
  "js_shl a n = to_int32 (push_bit (n mod 32) (to_int32 a))"

text \<open>
  \<open>String.fromCharCode(n)\<close> followed by the \<open>'ascii'\<close> encoding of \<open>concat_buffer\<close>:
  the character code is \<open>n\<close> modulo \<open>2 ^ 16\<close>, the byte its low eight bits.
\<close>

definition fromCharCode :: "int \<Rightarrow> byte" where
  "fromCharCode n = word_of_int n"

text \<open>\<open>buf[i]\<close>: \<open>undefined\<close> (here \<open>None\<close>) outside the buffer.\<close>

definition buf_at :: "buffer \<Rightarrow> nat \<Rightarrow> byte option" where
  "buf_at buf i = (if i < length buf then Some (buf ! i) else None)"

text \<open>\<open>buf.slice(a, b)\<close> and \<open>buf.slice(a)\<close> for non-negative indices.\<close>

definition slice :: "buffer \<Rightarrow> nat \<Rightarrow> nat \<Rightarrow> buffer" where
  "slice buf a b = take (b - a) (drop a buf)"

definition slice_from :: "buffer \<Rightarrow> nat \<Rightarrow> buffer" where
  "slice_from buf a = drop a buf"

text \<open>\<open>buf.toString('hex')\<close>: two lower-case digits for every byte.\<close>

definition hex_digit :: "nat \<Rightarrow> char" where
  "hex_digit d = ''0123456789abcdef'' ! (d mod 16)"

definition to_hex :: "buffer \<Rightarrow> string" where
  "to_hex buf = concat (map (\<lambda>b. [hex_digit (unat b div 16), hex_digit (unat b mod 16)]) buf)"

text \<open>
  \<open>buf.toString('ascii')\<close>: one character for every byte, its high bit cleared.
\<close>

definition to_ascii :: "buffer \<Rightarrow> buffer" where
  "to_ascii buf = map (\<lambda>b. b AND 0x7f) buf"

text \<open>\<open>s.indexOf(p) === 0\<close>: the string \<open>s\<close> starts with \<open>p\<close>.\<close>

definition starts_with :: "'a list \<Rightarrow> 'a list \<Rightarrow> bool" where
  "starts_with s p = (take (length p) s = p)"

section \<open>Frame codec\<close>

text \<open>
  \<open>_calculate_checksum\<close>: the loop adds every byte to \<open>check_sum\<close>, the result is
  \<open>(-check_sum) & 0xff\<close>.
\<close>

definition calculate_checksum :: "buffer \<Rightarrow> int" where
  "calculate_checksum buf =
     (let check_sum = fold (\<lambda>v s. s + uint v) buf 0;
          dcs = js_and (- check_sum) 0xff
      in dcs)"

text \<open>
  The frame header written first by \<open>_rw_command\<close> (\<open>promise0\<close>) for a payload of
  \<open>len\<close> bytes: the normal form up to 255 bytes, the extended form above.
\<close>

definition frame_header :: "nat \<Rightarrow> buffer" where
  "frame_header len =
     (let req = [0x00, 0x00, 0xff] in
      if len \<le> 255 then
        req @ [fromCharCode (int len), fromCharCode (js_and (- int len) 0xff)]
      else
        let buffer1 = req @ [0xff, 0xff] @
              [fromCharCode (js_and (js_shr (int len) 8) 0xff),
               fromCharCode (js_and (js_shr (int len) 0) 0xff)]
        in buffer1 @ [fromCharCode (calculate_checksum (slice_from buffer1 2))])"

definition MAX_RW_RESPONSE_LEN :: nat where
  "MAX_RW_RESPONSE_LEN = 265"

section \<open>Errors, promises and validators\<close>

text \<open>
  A rejection reason is a plain string (\<open>'timeout'\<close>) or an object
  \<open>{error: tag, error2: cause}\<close>.
  A promise is observed once the event loop has run dry: resolved, rejected, or never
  settled (\<open>Pending\<close>), which is what is left when a continuation throws before it calls
  the resolver of the promise it was to settle.
\<close>

datatype js_error =
    Str string
  | Obj string js_error

datatype 'a promise = Resolved 'a | Rejected js_error | Pending

datatype 'a js_result = Throws string | Returns 'a

text \<open>
  The \<open>check\<close> argument of \<open>_read\<close> and \<open>_rw_command\<close>: omitted, a hex string, or a
  function on the buffer. \<open>if (check)\<close> holds for a function and for a non-empty string.
\<close>

datatype validator = Absent | HexStr string | Predicate "buffer \<Rightarrow> bool"

fun truthy :: "validator \<Rightarrow> bool" where
  "truthy Absent = False"
| "truthy (HexStr s) = (s \<noteq> [])"
| "truthy (Predicate f) = True"

section \<open>Pending-read queue\<close>

text \<open>
  The entries pushed by \<open>_read\<close>. \<open>promise_id\<close> stands for the pair
  \<open>ok_callback\<close>/\<open>ng_callback\<close>, the resolvers of the promise \<open>_read\<close> returned.
\<close>

record read_request =
  time_in :: int
  time_expire :: int
  bytes_needed :: nat
  buffers :: "buffer list"
  req_check :: validator
  promise_id :: nat

text \<open>
  \<open>_read_buffer\<close> is the empty string until the first chunk arrives (\<open>None\<close>) and a
  \<open>Buffer\<close> afterwards; only the empty string is falsy.
\<close>

record read_state =
  read_buffer :: "buffer option"
  read_queue :: "read_request list"

datatype callback = ok_callback nat buffer | ng_callback nat string

datatype js_exception = TypeError

text \<open>The \<open>'data'\<close> handler of the serial port.\<close>

definition on_data :: "buffer \<Rightarrow> read_state \<Rightarrow> read_state" where
  "on_data buffer st =
     (case read_buffer st of
        None \<Rightarrow> st\<lparr>read_buffer := Some buffer\<rparr>
      | Some rb \<Rightarrow> st\<lparr>read_buffer := Some (rb @ buffer)\<rparr>)"

text \<open>\<open>_read(length, check)\<close> at time \<open>now\<close> with the reader's timeout.\<close>

definition read_push :: "nat \<Rightarrow> validator \<Rightarrow> int \<Rightarrow> int \<Rightarrow> nat \<Rightarrow> read_state \<Rightarrow> read_state" where
  "read_push len chk now tmo pid st =
     st\<lparr>read_queue := read_queue st @
        [\<lparr>time_in = now, time_expire = now + tmo, bytes_needed = len, buffers = [],
          req_check = chk, promise_id = pid\<rparr>]\<rparr>"

text \<open>The acceptance test of a completed request (lines 148 to 158).\<close>

definition queue_check :: "validator \<Rightarrow> buffer \<Rightarrow> bool" where
  "queue_check chk out_buffer =
     (if truthy chk then
        (case chk of
           Predicate f \<Rightarrow> f out_buffer
         | HexStr s \<Rightarrow> s = to_hex out_buffer
         | Absent \<Rightarrow> False)
      else True)"

text \<open>
  One run of the interval timer at time \<open>now\<close>. The result is the exception the callback
  ends with (if any), the resolver calls it made, in order, and the state it leaves.
  In the expiry branch the statement after \<open>ng_callback('timeout')\<close> is
  \<open>this._read_buffer.shift()\<close>: neither a string nor a \<open>Buffer\<close> (a \<open>Uint8Array\<close>) has a
  method \<open>shift\<close>, so the call throws a \<open>TypeError\<close> and nothing has been assigned.
\<close>

definition read_timer :: "int \<Rightarrow> read_state \<Rightarrow> js_exception option \<times> callback list \<times> read_state" where
  "read_timer now st =
     (case read_queue st of
        [] \<Rightarrow> (None, [], st)
      | read_req # rest \<Rightarrow>
          if now \<ge> time_expire read_req then
            (Some TypeError, [ng_callback (promise_id read_req) ''timeout''], st)
          else
            (case read_buffer st of
               None \<Rightarrow> (None, [], st)
             | Some rb \<Rightarrow>
                 let bytes_to_take =
                       (if length rb \<ge> bytes_needed read_req then bytes_needed read_req
                        else length rb);
                     read_req' = read_req
                       \<lparr>buffers := buffers read_req @ [slice rb 0 bytes_to_take],
                        bytes_needed := bytes_needed read_req - bytes_to_take\<rparr>;
                     rb' = slice_from rb bytes_to_take;
                     out_buffer = concat (buffers read_req')
                 in if bytes_needed read_req' = 0 then
                      (None,
                       (if \<not> queue_check (req_check read_req') out_buffer
                        then [ng_callback (promise_id read_req') ''check-failed''] else [])
                       @ [ok_callback (promise_id read_req') out_buffer],
                       \<lparr>read_buffer = Some rb', read_queue = rest\<rparr>)
                    else
                      (None, [], \<lparr>read_buffer = Some rb', read_queue = read_req' # rest\<rparr>)))"

section \<open>Reader state and transport\<close>

text \<open>
  The reader as the operations above the queue see it: the \<open>_busy\<close> flag, the
  configured \<open>_timeout\<close>, the transport, and a history of the card-level calls made.
  The transport is \<open>tx\<close>, the buffers handed to \<open>_ser.write\<close> in order, and \<open>rx\<close>, the
  bytes the device delivers from now on. \<open>calls\<close> is a history variable: it is written,
  never read, by the operations.
\<close>

datatype call = request_service_call | read_without_encryption_call nat

record reader =
  busy :: bool
  timeout :: int
  rx :: buffer
  tx :: "buffer list"
  calls :: "call list"

text \<open>
  \<open>_write_serial\<close>: \<open>_ser\<close> is set by the constructor, so the write is made and the
  promise resolves once drained.
\<close>

definition write_serial :: "buffer \<Rightarrow> reader \<Rightarrow> reader" where
  "write_serial buffer st = st\<lparr>tx := tx st @ [buffer]\<rparr>"

text \<open>
  \<open>_read(length, check)\<close> as the transaction engine uses it, one request at a time on an
  otherwise empty queue: the request takes its bytes from the front of what the device
  delivers, is tested with \<open>queue_check\<close> once complete, and is rejected with
  \<open>'timeout'\<close>, having taken what there was, when the bytes never come.
\<close>

definition read :: "nat \<Rightarrow> validator \<Rightarrow> reader \<Rightarrow> buffer promise \<times> reader" where
  "read len chk st =
     (if length (rx st) < len then (Rejected (Str ''timeout''), st\<lparr>rx := []\<rparr>)
      else
        let out_buffer = take len (rx st);
            st' = st\<lparr>rx := drop len (rx st)\<rparr>
        in if queue_check chk out_buffer then (Resolved out_buffer, st')
           else (Rejected (Str ''check-failed''), st'))"

text \<open>\<open>_cancel\<close>: writes the cancel frame, then resolves; it never rejects.\<close>

definition cancel :: "reader \<Rightarrow> reader" where
  "cancel st = write_serial [0x00, 0x00, 0xff, 0x00, 0xff, 0x00] st"

section \<open>Transaction engine\<close>

text \<open>
  \<open>_rw_command(command, check)\<close>. The three writes cannot fail (see \<open>write_serial\<close>).
  An extended-length response header leads to \<open>this._read_serial(3)\<close>, which calls the
  method \<open>_data_in_get\<close> that the class does not have: the continuation throws and the
  promise of the transaction is never settled.
  In the last stage \<open>check_ok\<close> is computed as in the source, and as in the source the
  decision that follows tests \<open>check\<close>, not \<open>check_ok\<close>.
\<close>

definition rw_command :: "buffer \<Rightarrow> validator \<Rightarrow> reader \<Rightarrow> buffer promise \<times> reader" where
  "rw_command command check st =
     (let send_buffer = command;
          len = length send_buffer;
          dcs = calculate_checksum send_buffer;
          st0 = write_serial (frame_header len) st;
          st1 = write_serial send_buffer st0;
          st2 = write_serial [fromCharCode dcs, 0x00] st1
      in case read 6 (HexStr ''0000ff00ff00'') st2 of
           (Rejected err, st3) \<Rightarrow> (Rejected (Obj ''no-ack'' err), cancel st3)
         | (Pending, st3) \<Rightarrow> (Pending, st3)
         | (Resolved res_buffer, st3) \<Rightarrow>
          (case read 5 (Predicate (\<lambda>buf. starts_with (to_hex buf) ''0000ff'')) st3 of
             (Rejected err, st4) \<Rightarrow> (Rejected (Obj ''no-valid-message'' err), cancel st4)
           | (Pending, st4) \<Rightarrow> (Pending, st4)
           | (Resolved response_header, st4) \<Rightarrow>
              if buf_at response_header 3 = Some 0xff \<and> buf_at response_header 4 = Some 0xff
              then (Pending, st4)
              else if calculate_checksum (slice_from response_header 3) \<noteq> 0
              then (Rejected (Str ''response-checksum-error''), cancel st4)
              else
                let response_len = (case buf_at response_header 3 of Some b \<Rightarrow> unat b | None \<Rightarrow> 0)
                in if response_len > MAX_RW_RESPONSE_LEN
                   then (Rejected (Str ''response-too-long''), cancel st4)
                   else
                    (case read response_len Absent st4 of
                       (Rejected err, st5) \<Rightarrow>
                         (Rejected (Obj ''read-response-failed'' err), cancel st5)
                     | (Pending, st5) \<Rightarrow> (Pending, st5)
                     | (Resolved response_body, st5) \<Rightarrow>
                        let dcs' = calculate_checksum response_body
                        in (case read 2 (Predicate (\<lambda>buf.
                                    map_option uint (buf_at buf 0) = Some dcs'
                                    \<and> buf_at buf 1 = Some 0x00)) st5 of
                              (Rejected err, st6) \<Rightarrow>
                                (Rejected (Obj ''response-checksum-invalid'' err), cancel st6)
                            | (Pending, st6) \<Rightarrow> (Pending, st6)
                            | (Resolved dcs_buffer, st6) \<Rightarrow>
                               let check_ok =
                                     (if truthy check then
                                        (case check of
                                           Predicate f \<Rightarrow> f response_body
                                         | HexStr s \<Rightarrow> to_hex response_body = s
                                         | Absent \<Rightarrow> False)
                                      else False)
                               in if \<not> truthy check
                                  then (Rejected (Str ''check-failed''), cancel st6)
                                  else (Resolved response_body, st6)))))"

section \<open>Card command layer\<close>

text \<open>\<open>int2strbinLE(num, length)\<close>: the low byte first, \<open>num >>= 8\<close> between bytes.\<close>

fun int2strbinLE :: "int \<Rightarrow> nat \<Rightarrow> buffer" where
  "int2strbinLE num 0 = []"
| "int2strbinLE num (Suc n) = fromCharCode (js_and num 0xff) # int2strbinLE (js_shr num 8) n"

text \<open>The buffer \<open>_card_command\<close> builds around \<open>command\<close> for a reader timeout \<open>t\<close>.\<close>

definition command_buffer :: "int \<Rightarrow> buffer \<Rightarrow> buffer" where
  "command_buffer t command =
     (let command_timeout = (if t \<ge> 0x10000 div 2 then 0xffff else t * 2)
      in [0xd4, 0xa0] @ int2strbinLE command_timeout 2
         @ [fromCharCode (int (length command) + 1)] @ command)"

definition card_command_check :: "buffer \<Rightarrow> bool" where
  "card_command_check buf =
     (length buf \<ge> 4 \<and> starts_with (to_hex buf) ''d5a100''
      \<and> Some (int (length buf)) = map_option (\<lambda>b. uint b + 3) (buf_at buf 3))"

text \<open>\<open>_card_command(command)\<close>: the function has this one parameter.\<close>

definition card_command :: "buffer \<Rightarrow> reader \<Rightarrow> buffer promise \<times> reader" where
  "card_command command st =
     (case rw_command (command_buffer (timeout st) command) (Predicate card_command_check) st of
        (Resolved buffer, st') \<Rightarrow> (Resolved (slice_from buffer 4), st')
      | (Rejected error, st') \<Rightarrow> (Rejected (Obj ''ex-command-failed'' error), st')
      | (Pending, st') \<Rightarrow> (Pending, st'))"

text \<open>
  A call \<open>this._card_command(command, f)\<close> with a second argument: the function declares
  no second parameter and does not read \<open>arguments\<close>, so the argument is dropped.
\<close>

definition card_command2 :: "buffer \<Rightarrow> (buffer \<Rightarrow> bool) \<Rightarrow> reader \<Rightarrow> buffer promise \<times> reader" where
  "card_command2 command unused st = card_command command st"

section \<open>Device session\<close>

record card_identity =
  card_idm :: buffer
  card_pmn :: buffer

definition polling_check :: "buffer \<Rightarrow> bool" where
  "polling_check buf =
     (let hex = to_hex buf
      in starts_with hex ''d54b01011201'' \<or> starts_with hex ''d54b00'')"

text \<open>
  \<open>polling(system_code)\<close>. It resolves with \<open>{idm, pmn}\<close> for a target found and with
  nothing (\<open>None\<close>) otherwise.
\<close>

definition polling :: "buffer \<Rightarrow> reader \<Rightarrow> card_identity option promise \<times> reader" where
  "polling system_code st =
     (if busy st then (Rejected (Str ''busy''), st)
      else
        let st0 = st\<lparr>busy := True\<rparr>
        in case rw_command ([0xd4, 0x4a, 0x01, 0x01, 0x00] @ system_code @ [0x00, 0x0f])
                  (Predicate polling_check) st0 of
             (Resolved response_buffer1, st1) \<Rightarrow>
               let st2 = st1\<lparr>busy := False\<rparr>;
                   hex = to_hex response_buffer1
               in if starts_with hex ''d54b01011201''
                  then (Resolved (Some \<lparr>card_idm = slice response_buffer1 6 (6 + 8),
                                         card_pmn = slice response_buffer1 14 (14 + 8)\<rparr>), st2)
                  else (Resolved None, st2)
           | (Rejected err, st1) \<Rightarrow>
               (Rejected (Obj ''InListPassiveTarget-failed'' err), st1\<lparr>busy := False\<rparr>)
           | (Pending, st1) \<Rightarrow> (Pending, st1))"

section \<open>Service and block reader\<close>

text \<open>
  \<open>serial(funcs)\<close>: the tasks run one after the other, each result is appended to the
  array of results (a \<open>Buffer\<close> is appended by \<open>concat\<close> as one element), and the first
  rejection ends the chain. A task that never settles leaves the chain pending.
\<close>

fun serial :: "(reader \<Rightarrow> 'a promise \<times> reader) list \<Rightarrow> 'a list \<Rightarrow> reader \<Rightarrow> 'a list promise \<times> reader" where
  "serial [] result st = (Resolved result, st)"
| "serial (func # funcs) result st =
     (case func st of
        (Resolved r, st') \<Rightarrow> serial funcs (result @ [r]) st'
      | (Rejected err, st') \<Rightarrow> (Rejected err, st')
      | (Pending, st') \<Rightarrow> (Pending, st'))"

text \<open>\<open>range(n)\<close>.\<close>

definition range_upto :: "nat \<Rightarrow> nat list" where
  "range_upto n = [0..<n]"

definition request_service_check :: "buffer \<Rightarrow> buffer \<Rightarrow> bool" where
  "request_service_check res_prefix_expected buf =
     (length buf = 12
      \<and> starts_with (to_hex buf) (to_hex res_prefix_expected)
      \<and> to_hex (slice_from buf 10) \<noteq> ''ffff'')"

text \<open>
  \<open>_request_service(idm, service_code)\<close>. The validator is built and handed to
  \<open>_card_command\<close> as a second argument.
\<close>

definition request_service :: "buffer \<Rightarrow> buffer \<Rightarrow> reader \<Rightarrow> unit promise \<times> reader" where
  "request_service idm code st =
     (let st0 = st\<lparr>calls := calls st @ [request_service_call]\<rparr>;
          command = [0x02] @ idm @ [0x01] @ code;
          res_prefix_expected = [0x03] @ idm
      in case card_command2 command (request_service_check res_prefix_expected) st0 of
           (Resolved response_buffer, st') \<Rightarrow> (Resolved (), st')
         | (Rejected err, st') \<Rightarrow> (Rejected (Obj ''request-service-failed'' err), st')
         | (Pending, st') \<Rightarrow> (Pending, st'))"

definition read_without_encryption_check :: "buffer \<Rightarrow> buffer \<Rightarrow> bool" where
  "read_without_encryption_check res_prefix_expected buf =
     (length buf = 28 \<and> starts_with (to_ascii buf) (to_ascii res_prefix_expected))"

text \<open>\<open>_read_without_encryption(idm, service_code, block_number)\<close>.\<close>

definition read_without_encryption :: "buffer \<Rightarrow> buffer \<Rightarrow> nat \<Rightarrow> reader \<Rightarrow> buffer promise \<times> reader" where
  "read_without_encryption idm code block_number st =
     (let st0 = st\<lparr>calls := calls st @ [read_without_encryption_call block_number]\<rparr>;
          command = [0x06] @ idm @ [0x01] @ code @ [0x01] @ [0x80]
                    @ [fromCharCode (int block_number)];
          res_prefix_expected = [0x07] @ idm
      in case card_command2 command (read_without_encryption_check res_prefix_expected) st0 of
           (Resolved response_buffer, st') \<Rightarrow> (Resolved (slice_from response_buffer 12), st')
         | (Rejected err, st') \<Rightarrow> (Rejected (Obj ''rw-command-failed'' err), st')
         | (Pending, st') \<Rightarrow> (Pending, st'))"

text \<open>
  One task of \<open>_read_without_encryption2\<close>. Its rejection handler first evaluates
  \<open>colors.bgRed.yellow.bold(...)\<close>; the module declares no \<open>colors\<close>, so the handler
  throws a \<open>ReferenceError\<close> before it reaches \<open>task_ng\<close>, and the task never settles.
\<close>

definition read_task :: "buffer \<Rightarrow> buffer \<Rightarrow> nat \<Rightarrow> nat \<Rightarrow> reader \<Rightarrow> buffer promise \<times> reader" where
  "read_task idm code block_number i st =
     (case read_without_encryption idm code (block_number + i) st of
        (Resolved buf, st') \<Rightarrow> (Resolved buf, st')
      | (Rejected err, st') \<Rightarrow> (Pending, st')
      | (Pending, st') \<Rightarrow> (Pending, st'))"

text \<open>\<open>_read_without_encryption2(idm, service_code, block_number, length)\<close>.\<close>

definition read_without_encryption2 :: "buffer \<Rightarrow> buffer \<Rightarrow> nat \<Rightarrow> nat \<Rightarrow> reader \<Rightarrow> buffer promise \<times> reader" where
  "read_without_encryption2 idm code block_number len st =
     (let st0 = st\<lparr>busy := True\<rparr>;
          tasks = map (\<lambda>i. read_task idm code block_number i) (range_upto len)
      in case serial tasks [] st0 of
           (Resolved results, st') \<Rightarrow> (Resolved (concat results), st'\<lparr>busy := False\<rparr>)
         | (Rejected err, st') \<Rightarrow>
             (Rejected (Obj ''read-without-encryption2-task-error'' err), st'\<lparr>busy := False\<rparr>)
         | (Pending, st') \<Rightarrow> (Pending, st'))"

text \<open>\<open>read_block(idm, service_code, block_number, length)\<close>.\<close>

definition read_block :: "buffer \<Rightarrow> buffer \<Rightarrow> nat \<Rightarrow> nat \<Rightarrow> reader \<Rightarrow> buffer promise \<times> reader" where
  "read_block idm code block_number len st =
     (case request_service idm code st of
        (Resolved u, st') \<Rightarrow>
          (case read_without_encryption2 idm code block_number len st' of
             (Resolved buf, st'') \<Rightarrow> (Resolved buf, st'')
           | (Rejected err, st'') \<Rightarrow>
               (Rejected (Obj ''read-without-encryption2-failed'' err), st'')
           | (Pending, st'') \<Rightarrow> (Pending, st''))
      | (Rejected err, st') \<Rightarrow> (Rejected (Obj ''request-service-failed'' err), st')
      | (Pending, st') \<Rightarrow> (Pending, st'))"

text \<open>
  A service descriptor. A field that the object literal leaves out is \<open>None\<close>;
  \<open>service_code\<close> is a binary string, falsy when empty, \<open>blocks\<close> a number, falsy when 0.
\<close>

record 'r service =
  service_code :: "buffer option"
  blocks :: "nat option"
  processing :: "(buffer list \<Rightarrow> 'r) option"

definition falsy_string :: "buffer option \<Rightarrow> bool" where
  "falsy_string s = (case s of None \<Rightarrow> True | Some b \<Rightarrow> b = [])"

definition falsy_number :: "nat option \<Rightarrow> bool" where
  "falsy_number n = (case n of None \<Rightarrow> True | Some k \<Rightarrow> k = 0)"

text \<open>
  \<open>read_service(idm, sevice)\<close>: a synchronous \<open>throw\<close> of a string, or the promise.
  Calling a missing \<open>processing\<close> throws inside the continuation of \<open>serial\<close>, so the
  promise is then never settled.
\<close>

definition read_service :: "buffer \<Rightarrow> 'r service \<Rightarrow> reader \<Rightarrow> 'r promise js_result \<times> reader" where
  "read_service idm sevice st =
     (if falsy_string (service_code sevice) \<or> falsy_number (blocks sevice) then
        (Throws ''expecting service_dict to be {service_code:xx, blocks:xx}'', st)
      else
        case (service_code sevice, blocks sevice) of
          (Some code, Some n) \<Rightarrow>
            (let funcs = map (\<lambda>i. read_block idm code i n) [0..<n]
             in case serial funcs [] st of
                  (Resolved results, st') \<Rightarrow>
                    (case processing sevice of
                       Some f \<Rightarrow> (Returns (Resolved (f results)), st')
                     | None \<Rightarrow> (Returns Pending, st'))
                | (Rejected err, st') \<Rightarrow> (Returns (Rejected err), st')
                | (Pending, st') \<Rightarrow> (Returns Pending, st'))
        | _ \<Rightarrow> (Throws ''expecting service_dict to be {service_code:xx, blocks:xx}'', st))"

section \<open>Numeric helper and the balance descriptor\<close>

text \<open>
  A JavaScript number that may be \<open>NaN\<close>. \<open>out <<= 8\<close> turns \<open>NaN\<close> into 0,
  \<open>out += undefined\<close> turns any number into \<open>NaN\<close>.
\<close>

datatype jsnum = Num int | NaN

fun shl8 :: "jsnum \<Rightarrow> jsnum" where
  "shl8 (Num a) = Num (js_shl a 8)"
| "shl8 NaN = Num 0"

fun plus_elem :: "jsnum \<Rightarrow> byte option \<Rightarrow> jsnum" where
  "plus_elem (Num a) (Some b) = Num (a + uint b)"
| "plus_elem (Num a) None = NaN"
| "plus_elem NaN e = NaN"

text \<open>\<open>arr[j]\<close> on an array of bytes, \<open>undefined\<close> outside it.\<close>

definition elem_at :: "byte option list \<Rightarrow> nat \<Rightarrow> byte option" where
  "elem_at arr j = (if j < length arr then arr ! j else None)"

text \<open>\<open>read_number(buffer, idx, len, byte_order)\<close>.\<close>

definition read_number :: "buffer \<Rightarrow> nat \<Rightarrow> nat \<Rightarrow> string \<Rightarrow> jsnum" where
  "read_number buffer idx len byte_order =
     (let end_idx = (if len \<noteq> 0 then idx + len else length buffer);
          extracted_data = map (buf_at buffer) [idx..<end_idx];
          extracted_data' = (if byte_order = ''LE'' then rev extracted_data else extracted_data)
      in fold (\<lambda>j out. plus_elem (shl8 out) (elem_at extracted_data' j)) [0..<len] (Num 0))"

record properties =
  balance :: jsnum

text \<open>\<open>Rcs620s.SERVICES.SUICA.PROPERTIES\<close>; \<open>None\<close> is the \<open>undefined\<close> of the bare \<open>return\<close>.\<close>

definition PROPERTIES_processing :: "buffer list \<Rightarrow> properties option" where
  "PROPERTIES_processing results =
     (case results of
        [] \<Rightarrow> None
      | data # rest \<Rightarrow> Some \<lparr>balance = read_number data 11 2 ''LE''\<rparr>)"

definition PROPERTIES :: "properties option service" where
  "PROPERTIES = \<lparr>service_code = Some [0x8b, 0x00], blocks = Some 1,
                  processing = Some PROPERTIES_processing\<rparr>"

section \<open>The envelope in the words of the specification\<close>

text \<open>
  The little-endian 2-byte encoding of a number: its low byte, then its high byte.
\<close>

definition le_bytes2 :: "int \<Rightarrow> buffer" where
  "le_bytes2 v = [word_of_int (v mod 256), word_of_int (v div 256 mod 256)]"

text \<open>
  The envelope of a card command as the specification words it, for a configured
  timeout of \<open>t\<close> milliseconds: \<open>D4 A0\<close>, the encoded timeout \<open>min(0xFFFF, 2 t)\<close>, one
  length byte, the command. The length byte is written as \<open>L + 1\<close> reduced modulo 256.
\<close>

definition spec_envelope :: "int \<Rightarrow> buffer \<Rightarrow> buffer" where
  "spec_envelope t command =
     [0xd4, 0xa0] @ le_bytes2 (min 0xffff (2 * t))
     @ [word_of_nat ((length command + 1) mod 256)] @ command"

section \<open>Device replies used in the examples\<close>

text \<open>
  Byte streams as an RC-S620/S delivers them: the ACK frame \<open>00 00 FF 00 FF 00\<close>, then
  a response frame \<open>00 00 FF LEN LCS body DCS 00\<close> whose body is \<open>D5 A1 00 n\<close> followed by
  the card's reply. The card in the examples has this IDm.
\<close>

definition example_idm :: buffer where
  "example_idm = [0x01, 0x02, 0x03, 0x04, 0x05, 0x06, 0x07, 0x08]"

text \<open>Reply to Request Service: the service exists (key version \<open>00 00\<close>).\<close>

definition reply_service_present :: buffer where
  "reply_service_present =
     [0x00, 0x00, 0xff, 0x00, 0xff, 0x00, 0x00, 0x00, 0xff, 0x10, 0xf0,
      0xd5, 0xa1, 0x00, 0x0d,
      0x03, 0x01, 0x02, 0x03, 0x04, 0x05, 0x06, 0x07, 0x08, 0x01, 0x00, 0x00,
      0x55, 0x00]"

text \<open>Reply to Request Service: the service does not exist (\<open>FF FF\<close>).\<close>

definition reply_service_absent :: buffer where
  "reply_service_absent =
     [0x00, 0x00, 0xff, 0x00, 0xff, 0x00, 0x00, 0x00, 0xff, 0x10, 0xf0,
      0xd5, 0xa1, 0x00, 0x0d,
      0x03, 0x01, 0x02, 0x03, 0x04, 0x05, 0x06, 0x07, 0x08, 0x01, 0xff, 0xff,
      0x57, 0x00]"

text \<open>Replies to Read Without Encryption carrying three different blocks.\<close>

definition block_a :: buffer where
  "block_a = [0x10, 0x11, 0x12, 0x13, 0x14, 0x15, 0x16, 0x17,
              0x18, 0x19, 0x1a, 0x1b, 0x1c, 0x1d, 0x1e, 0x1f]"

definition block_b :: buffer where
  "block_b = [0x20, 0x21, 0x22, 0x23, 0x24, 0x25, 0x26, 0x27,
              0x28, 0x29, 0x2a, 0x2b, 0x2c, 0x2d, 0x2e, 0x2f]"

definition block_c :: buffer where
  "block_c = [0x30, 0x31, 0x32, 0x33, 0x34, 0x35, 0x36, 0x37,
              0x38, 0x39, 0x3a, 0x3b, 0x3c, 0x3d, 0x3e, 0x3f]"

definition reply_block :: "buffer \<Rightarrow> byte \<Rightarrow> buffer" where
  "reply_block block dcs =
     [0x00, 0x00, 0xff, 0x00, 0xff, 0x00, 0x00, 0x00, 0xff, 0x20, 0xe0,
      0xd5, 0xa1, 0x00, 0x1d,
      0x07, 0x01, 0x02, 0x03, 0x04, 0x05, 0x06, 0x07, 0x08, 0x00, 0x00, 0x01]
     @ block @ [dcs, 0x00]"

text \<open>A block of the balance service holding \<open>E8 03\<close> at offsets 11 and 12.\<close>

definition block_balance :: buffer where
  "block_balance = [0x00, 0x00, 0x00, 0x00, 0x00, 0x00, 0x00, 0x00,
                    0x00, 0x00, 0x00, 0xe8, 0x03, 0x00, 0x00, 0x00]"

text \<open>A fresh reader with the default timeout that is about to receive \<open>bytes\<close>.\<close>

definition fresh_reader :: "buffer \<Rightarrow> reader" where
  "fresh_reader bytes = \<lparr>busy = False, timeout = 1000, rx = bytes, tx = [], calls = []\<rparr>"

section \<open>Properties of the frame codec\<close>

lemma js_and_ff: "js_and x 0xff = x mod 256"
proof -
  have "to_int32 x AND 255 = take_bit 8 (to_int32 x)"
    using take_bit_eq_mask [of 8 "to_int32 x"] by (simp add: mask_eq_exp_minus_1)
  also have "\<dots> = take_bit 8 x"
    by (simp add: to_int32_def take_bit_signed_take_bit)
  also have "\<dots> = x mod 256"
    by (simp add: take_bit_eq_mod)
  finally show ?thesis
    by (simp add: js_and_def to_int32_def)
qed

lemma fold_add_uint: "fold (\<lambda>v s. s + uint v) buf a = a + sum_list (map uint buf)"
  by (induction buf arbitrary: a) simp_all

lemma calculate_checksum_eq: "calculate_checksum buf = (- sum_list (map uint buf)) mod 256"
  by (simp add: calculate_checksum_def fold_add_uint js_and_ff)

lemma fromCharCode_mod: "fromCharCode (x mod 256) = fromCharCode x"
proof -
  have "take_bit 8 (x mod 256) = take_bit 8 x"
    by (simp add: take_bit_eq_mod)
  then show ?thesis
    by (simp add: fromCharCode_def word_of_int_eq_iff)
qed

text \<open>
  C5. For every byte sequence \<open>b\<close>, \<open>_calculate_checksum(b)\<close> is a single byte (an
  integer between 0 and 255) and the sum of the bytes of \<open>b\<close> plus the checksum is
  0 modulo 256.
\<close>

theorem calculate_checksum_byte:
  "0 \<le> calculate_checksum b \<and> calculate_checksum b \<le> 255 \<and>
   (sum_list (map uint b) + calculate_checksum b) mod 256 = 0"
proof -
  let ?s = "sum_list (map uint b)"
  have c: "calculate_checksum b = (- ?s) mod 256"
    by (rule calculate_checksum_eq)
  have "(?s + (- ?s) mod 256) mod 256 = (?s + - ?s) mod 256"
    by (rule mod_add_right_eq)
  then have "(?s + calculate_checksum b) mod 256 = 0"
    by (simp add: c)
  moreover have "0 \<le> calculate_checksum b" "calculate_checksum b \<le> 255"
    by (simp_all add: c)
  ultimately show ?thesis by simp
qed

text \<open>The checksum of the open-device command \<open>D4 32 02 00 00 00\<close> is \<open>F8\<close>.\<close>

theorem calculate_checksum_byte_witness:
  "calculate_checksum [0xd4, 0x32, 0x02, 0x00, 0x00, 0x00] = 0xf8 \<and>
   (sum_list (map uint [0xd4, 0x32, 0x02, 0x00, 0x00, 0x00 :: byte]) + 0xf8) mod 256 = 0"
proof -
  have e: "calculate_checksum [0xd4, 0x32, 0x02, 0x00, 0x00, 0x00] = 0xf8"
    by code_simp
  show ?thesis
    using calculate_checksum_byte [of "[0xd4, 0x32, 0x02, 0x00, 0x00, 0x00]"] e by simp
qed

text \<open>
  Every extended header ends with the checksum of \<open>FF FF FF LEN_HI LEN_LO\<close>, the
  header from offset 2: the byte \<open>3 - (LEN_HI + LEN_LO)\<close> modulo 256.
\<close>

lemma extended_frame_header:
  assumes "255 < len"
  shows "\<exists>hi lo. frame_header len = [0x00, 0x00, 0xff, 0xff, 0xff, hi, lo, 3 - (hi + lo)]"
proof -
  define hi where "hi = fromCharCode (js_and (js_shr (int len) 8) 0xff)"
  define lo where "lo = fromCharCode (js_and (js_shr (int len) 0) 0xff)"
  have "fromCharCode (calculate_checksum [0xff, 0xff, 0xff, hi, lo]) = 3 - (hi + lo)"
    by (simp add: calculate_checksum_eq fromCharCode_mod) (simp add: fromCharCode_def)
  then have "frame_header len = [0x00, 0x00, 0xff, 0xff, 0xff, hi, lo, 3 - (hi + lo)]"
    using assms by (simp add: frame_header_def Let_def slice_from_def hi_def lo_def)
  then show ?thesis by blast
qed

text \<open>
  C6 claims that for a payload longer than 255 bytes the length checksum sent after
  \<open>00 00 FF FF FF LEN_HI LEN_LO\<close> is \<open>(-(LEN_HI + LEN_LO)) mod 256\<close>. The code does
  otherwise: for a payload of 256 bytes (\<open>LEN_HI = 01\<close>, \<open>LEN_LO = 00\<close>) the first
  write of \<open>_rw_command\<close> is \<open>00 00 FF FF FF 01 00 02\<close>, while the claimed checksum
  is \<open>FF\<close>.
\<close>

theorem extended_frame_length_checksum:
  "take 1 (tx (snd (rw_command (replicate 256 0x00) Absent (fresh_reader []))))
     = [[0x00, 0x00, 0xff, 0xff, 0xff, 0x01, 0x00, 0x02]]
   \<and> (- (0x01 + 0x00)) mod 256 = (0xff :: int)"
  by code_simp

section \<open>Properties of the pending-read queue\<close>

text \<open>What the timer does whenever the head request has expired.\<close>

lemma read_timer_expired:
  "read_queue st = r # rest \<Longrightarrow> time_expire r \<le> now \<Longrightarrow>
   read_timer now st = (Some TypeError, [ng_callback (promise_id r) ''timeout''], st)"
  by (simp add: read_timer_def)

text \<open>
  A lone fresh request whose bytes are all there is settled by one run of the timer
  before its deadline: it gets the first bytes of the accumulation buffer, and the
  first resolver called (the one that counts for a promise) is \<open>ng_callback\<close> with
  \<open>'check-failed'\<close> exactly when the acceptance test fails. This is the behaviour that
  \<open>read\<close> gives to the transaction engine.
\<close>

lemma read_timer_serves_head:
  assumes "read_queue st = [r]" and "buffers r = []" and "read_buffer st = Some rb"
      and "bytes_needed r \<le> length rb" and "now < time_expire r"
  shows "read_timer now st =
     (None,
      (if queue_check (req_check r) (take (bytes_needed r) rb) then []
       else [ng_callback (promise_id r) ''check-failed''])
      @ [ok_callback (promise_id r) (take (bytes_needed r) rb)],
      \<lparr>read_buffer = Some (drop (bytes_needed r) rb), read_queue = []\<rparr>)"
  using assms by (simp add: read_timer_def slice_def slice_from_def Let_def)

text \<open>
  C2 claims that when the deadline of the head request elapses before it has all its
  bytes, the request is rejected with \<open>timeout\<close> and removed from the pending-read
  queue, the accumulation buffer and the later requests staying as they are. The code
  rejects the request and leaves the rest alone, but does not remove it: with a head
  request that has 2 of its 6 bytes when its deadline 1000 is reached, and a second
  request behind it, the run of the timer ends with a \<open>TypeError\<close> and the queue still
  holds both requests.
\<close>

theorem read_timer_timeout_leaves_head:
  "read_timer 1000
     \<lparr>read_buffer = Some [],
      read_queue =
        [\<lparr>time_in = 0, time_expire = 1000, bytes_needed = 4, buffers = [[0x00, 0x00]],
          req_check = HexStr ''0000ff00ff00'', promise_id = 0\<rparr>,
         \<lparr>time_in = 500, time_expire = 1500, bytes_needed = 5, buffers = [],
          req_check = Absent, promise_id = 1\<rparr>]\<rparr>
   = (Some TypeError, [ng_callback 0 ''timeout''],
      \<lparr>read_buffer = Some [],
       read_queue =
        [\<lparr>time_in = 0, time_expire = 1000, bytes_needed = 4, buffers = [[0x00, 0x00]],
          req_check = HexStr ''0000ff00ff00'', promise_id = 0\<rparr>,
         \<lparr>time_in = 500, time_expire = 1500, bytes_needed = 5, buffers = [],
          req_check = Absent, promise_id = 1\<rparr>]\<rparr>)"
  by (simp add: read_timer_def)

section \<open>Properties of the transaction engine\<close>

text \<open>The outcome of a transaction is the same for any two validators that are given.\<close>

lemma rw_command_validator_unused:
  "truthy c1 \<Longrightarrow> truthy c2 \<Longrightarrow> rw_command command c1 st = rw_command command c2 st"
  by (simp add: rw_command_def Let_def split: prod.split promise.split)

text \<open>
  C1 claims that once the body and its checksum bytes are received, \<open>_rw_command\<close>
  applies the validator to the body, cancels and fails with \<open>check-failed\<close> when the
  validator fails, and resolves with the body when it succeeds. The code does not fail
  on a failed validator: the open-device command with the validator \<open>'d533'\<close>, answered
  by an ACK and the well-formed frame \<open>00 00 FF 01 FF 7F 81 00\<close> (body \<open>7F\<close>), resolves
  with \<open>7F\<close>, and the three writes of the request are the only ones: no cancel frame.
\<close>

theorem rw_command_resolves_on_failed_check:
  "to_hex [0x7f] \<noteq> ''d533'' \<and>
   rw_command [0xd4, 0x32, 0x02, 0x00, 0x00, 0x00] (HexStr ''d533'')
     (fresh_reader [0x00, 0x00, 0xff, 0x00, 0xff, 0x00,
                    0x00, 0x00, 0xff, 0x01, 0xff, 0x7f, 0x81, 0x00])
   = (Resolved [0x7f],
      \<lparr>busy = False, timeout = 1000, rx = [],
       tx = [[0x00, 0x00, 0xff, 0x06, 0xfa],
             [0xd4, 0x32, 0x02, 0x00, 0x00, 0x00],
             [0xf8, 0x00]],
       calls = []\<rparr>)"
  by code_simp

section \<open>Properties of the card command layer\<close>

lemma js_shr8_mod: "js_shr x 8 mod 256 = x div 256 mod 256"
proof -
  have "take_bit 8 (drop_bit 8 (signed_take_bit 31 x)) = take_bit 8 (drop_bit 8 x)"
    by (rule bit_eqI) (auto simp add: bit_take_bit_iff bit_drop_bit_eq bit_signed_take_bit_iff)
  then show ?thesis
    by (simp add: js_shr_def to_int32_def take_bit_eq_mod drop_bit_eq_div)
qed

lemma int2strbinLE_2: "int2strbinLE v 2 = le_bytes2 v"
  by (simp add: numeral_2_eq_2 le_bytes2_def fromCharCode_def js_and_ff js_shr8_mod)

lemma command_timeout_min:
  "(if t \<ge> 0x10000 div 2 then 0xffff else t * 2) = min 0xffff (2 * (t::int))"
  by auto

lemma length_byte: "fromCharCode (int n + 1) = word_of_nat ((n + 1) mod 256)"
proof -
  have m: "(word_of_nat (m mod 256) :: byte) = word_of_nat m" for m
    by (simp add: word_of_nat_eq_iff take_bit_eq_mod)
  show ?thesis
    unfolding m [of "n + 1"] by (simp add: fromCharCode_def)
qed

lemma command_buffer_spec: "command_buffer t command = spec_envelope t command"
  unfolding command_buffer_def spec_envelope_def Let_def int2strbinLE_2 command_timeout_min
    length_byte
  by simp

text \<open>
  C7 claims that for every command of length \<open>L\<close> the envelope passed to the transaction
  engine carries the single byte \<open>L + 1\<close> after the timeout. For a command of 255 bytes
  the byte at offset 4 of the envelope is not \<open>L + 1 = 256\<close> (it is \<open>00\<close>).
\<close>

theorem card_command_length_byte_wraps:
  "unat (command_buffer 1000 (replicate 255 0x00) ! 4) \<noteq> length (replicate 255 (0x00 :: byte)) + 1"
  by code_simp

text \<open>
  C7, amended. For every command of length \<open>L\<close> and every configured timeout \<open>t\<close>
  (milliseconds), \<open>_card_command\<close> passes to the transaction engine exactly the envelope
  \<open>D4 A0\<close>, then the little-endian 2-byte encoding of \<open>min(0xFFFF, 2 t)\<close>, then the single
  byte \<open>(L + 1) mod 256\<close> (which is \<open>L + 1\<close> up to \<open>L = 254\<close>), then the command bytes; on
  success it resolves with the response body without its first 4 bytes, and a failure
  of the engine is wrapped as \<open>ex-command-failed\<close>.
\<close>

theorem card_command_envelope:
  "card_command command st =
     (case rw_command (spec_envelope (timeout st) command) (Predicate card_command_check) st of
        (Resolved body, st') \<Rightarrow> (Resolved (drop 4 body), st')
      | (Rejected e, st') \<Rightarrow> (Rejected (Obj ''ex-command-failed'' e), st')
      | (Pending, st') \<Rightarrow> (Pending, st'))"
  by (simp add: card_command_def command_buffer_spec slice_from_def
      split: prod.split promise.split)

text \<open>
  The Request Service command of the example card with the default timeout of 1000 ms:
  the envelope is \<open>D4 A0 D0 07 0D\<close> followed by the 12 command bytes, and the reply body
  \<open>D5 A1 00 0D 03 ...\<close> comes back without its first four bytes.
\<close>

theorem card_command_envelope_witness:
  "spec_envelope 1000 [0x02, 0x01, 0x02, 0x03, 0x04, 0x05, 0x06, 0x07, 0x08, 0x01, 0x8b, 0x00]
     = [0xd4, 0xa0, 0xd0, 0x07, 0x0d,
        0x02, 0x01, 0x02, 0x03, 0x04, 0x05, 0x06, 0x07, 0x08, 0x01, 0x8b, 0x00]
   \<and> fst (card_command [0x02, 0x01, 0x02, 0x03, 0x04, 0x05, 0x06, 0x07, 0x08, 0x01, 0x8b, 0x00]
            (fresh_reader reply_service_present))
     = Resolved [0x03, 0x01, 0x02, 0x03, 0x04, 0x05, 0x06, 0x07, 0x08, 0x01, 0x00, 0x00]"
  apply (subst card_command_envelope)
  apply code_simp
  done

section \<open>Properties of the busy guard\<close>

text \<open>A poll on a busy reader is rejected at once and leaves the reader as it is.\<close>

lemma polling_busy: "busy st \<Longrightarrow> polling system_code st = (Rejected (Str ''busy''), st)"
  by (simp add: polling_def)

text \<open>A poll that settles, either way, leaves the flag cleared.\<close>

lemma polling_clears_busy:
  "\<not> busy st \<Longrightarrow> polling system_code st = (p, st') \<Longrightarrow> p \<noteq> Pending \<Longrightarrow> \<not> busy st'"
  by (auto simp add: polling_def Let_def split: prod.splits promise.splits if_splits)

text \<open>
  A multi-block read never rejects: a task whose block read fails does not settle, so
  the chain of tasks cannot reach the rejection handler that would clear the flag.
\<close>

lemma serial_read_tasks_never_reject:
  "serial (map (\<lambda>i. read_task idm code b i) xs) acc st \<noteq> (Rejected e, st')"
proof (induction xs arbitrary: acc st)
  case Nil
  then show ?case by simp
next
  case (Cons x xs)
  then show ?case
    by (auto simp add: read_task_def split: prod.splits promise.splits)
qed

lemma read_without_encryption2_never_rejects:
  "read_without_encryption2 idm code b n st \<noteq> (Rejected e, st')"
  using serial_read_tasks_never_reject [of idm code b "range_upto n" "[]" "st\<lparr>busy := True\<rparr>"]
  by (auto simp add: read_without_encryption2_def Let_def split: prod.splits promise.splits)

text \<open>When the first block read fails the operation stays pending in the state of the failure.\<close>

lemma read_without_encryption2_failed_block:
  assumes "read_without_encryption idm code b (st\<lparr>busy := True\<rparr>) = (Rejected e, st')"
  shows "read_without_encryption2 idm code b (Suc n) st = (Pending, st')"
proof -
  have "range_upto (Suc n) = 0 # map Suc (range_upto n)"
    by (simp add: range_upto_def upt_conv_Cons map_Suc_upt del: upt_Suc)
  then show ?thesis using assms
    by (simp add: read_without_encryption2_def Let_def read_task_def)
qed

text \<open>
  C8 claims that a \<open>polling\<close> call made while the busy flag is set rejects with \<open>'busy'\<close>
  at once without a transport write, and that both guarded operations, \<open>polling\<close> and
  \<open>_read_without_encryption2\<close>, clear the flag when they complete, on success or on
  failure. The flag is not cleared when a block read fails: a one-block read whose frame
  the device answers with \<open>00 00 FF FF 00 00\<close> instead of the ACK sends the cancel frame
  and then never settles, the flag is still set, and a later poll is rejected as busy.
\<close>

theorem busy_stays_set_after_failed_block:
  "read_without_encryption2 example_idm [0x8b, 0x00] 0 1
      (fresh_reader [0x00, 0x00, 0xff, 0xff, 0x00, 0x00])
    = (Pending,
       \<lparr>busy = True, timeout = 1000, rx = [],
        tx = [[0x00, 0x00, 0xff, 0x14, 0xec],
              [0xd4, 0xa0, 0xd0, 0x07, 0x10, 0x06, 0x01, 0x02, 0x03, 0x04, 0x05, 0x06, 0x07,
               0x08, 0x01, 0x8b, 0x00, 0x01, 0x80, 0x00],
              [0x6e, 0x00],
              [0x00, 0x00, 0xff, 0x00, 0xff, 0x00]],
        calls = [read_without_encryption_call 0]\<rparr>)
   \<and> fst (polling [0x00, 0x03]
       (snd (read_without_encryption2 example_idm [0x8b, 0x00] 0 1
          (fresh_reader [0x00, 0x00, 0xff, 0xff, 0x00, 0x00])))) = Rejected (Str ''busy'')"
  by code_simp

section \<open>Properties of the service and block reader\<close>

text \<open>
  C3 claims that a \<open>request_service\<close> call whose card reply is a 12-byte buffer starting
  with \<open>03 <idm>\<close> and ending in \<open>FF FF\<close> fails with \<open>request-service-failed\<close>, and that
  no block read is attempted afterwards. The code accepts that reply: the validator
  rejects it, but \<open>_request_service\<close> resolves, and \<open>read_block\<close> goes on to read block 0
  and resolves with it.
\<close>

theorem request_service_accepts_absent_service:
  "\<not> request_service_check ([0x03] @ example_idm)
        [0x03, 0x01, 0x02, 0x03, 0x04, 0x05, 0x06, 0x07, 0x08, 0x01, 0xff, 0xff]
   \<and> fst (request_service example_idm [0x8b, 0x00]
            (fresh_reader (reply_service_absent @ reply_block block_a 0xc9))) = Resolved ()
   \<and> fst (read_block example_idm [0x8b, 0x00] 0 1
            (fresh_reader (reply_service_absent @ reply_block block_a 0xc9))) = Resolved block_a
   \<and> calls (snd (read_block example_idm [0x8b, 0x00] 0 1
            (fresh_reader (reply_service_absent @ reply_block block_a 0xc9))))
       = [request_service_call, read_without_encryption_call 0]"
  by code_simp

text \<open>With one block the service read is one \<open>read_block\<close> call and the shaping.\<close>

lemma read_service_one_block:
  assumes "service_code d = Some code" and "code \<noteq> []" and "blocks d = Some 1"
      and "processing d = Some f"
      and "read_block idm code 0 1 st = (Resolved block, st')"
  shows "read_service idm d st = (Returns (Resolved (f [block])), st')"
  using assms by (simp add: read_service_def falsy_string_def falsy_number_def)

text \<open>
  C4 claims that for a descriptor with \<open>N \<ge> 1\<close> blocks \<open>read_service\<close> calls
  \<open>request_service\<close> once, then reads the blocks 0 to \<open>N - 1\<close> once each in ascending
  order, and resolves with the shaper applied to the \<open>N\<close> blocks of 16 bytes. With
  \<open>N = 2\<close> the code does otherwise: it makes two rounds, each a \<open>request_service\<close> and
  two block reads, of the blocks 0, 1 and then 1, 2, and the shaper (here the identity)
  receives two buffers of 32 bytes.
\<close>

theorem read_service_two_blocks_trace:
  "fst (read_service example_idm
          \<lparr>service_code = Some [0x8f, 0x10], blocks = Some 2,
           processing = Some (\<lambda>results. results)\<rparr>
          (fresh_reader
             (reply_service_present @ reply_block block_a 0xc9 @ reply_block block_b 0xc9
              @ reply_service_present @ reply_block block_b 0xc9 @ reply_block block_c 0xc9)))
     = Returns (Resolved [block_a @ block_b, block_b @ block_c])
   \<and> calls (snd (read_service example_idm
          \<lparr>service_code = Some [0x8f, 0x10], blocks = Some 2,
           processing = Some (\<lambda>results. results)\<rparr>
          (fresh_reader
             (reply_service_present @ reply_block block_a 0xc9 @ reply_block block_b 0xc9
              @ reply_service_present @ reply_block block_b 0xc9 @ reply_block block_c 0xc9))))
     = [request_service_call, read_without_encryption_call 0, read_without_encryption_call 1,
        request_service_call, read_without_encryption_call 1, read_without_encryption_call 2]"
  by code_simp

lemma read_number_LE2:
  assumes "length block = 16"
  shows "read_number block 11 2 ''LE''
     = Num (js_shl (js_shl 0 8 + uint (block ! 12)) 8 + uint (block ! 11))"
proof -
  have u: "[11..<13] = [11, 12::nat]" "[0..<2] = [0, 1::nat]"
    by (simp_all add: upt_rec)
  show ?thesis using assms
    by (simp add: read_number_def u buf_at_def elem_at_def)
qed

text \<open>
  C9. For every \<open>read_service\<close> call with the balance descriptor (one block, the shaper
  reading a little-endian 2-byte integer at offset 11): if the single 16-byte block
  obtained has the byte \<open>E8\<close> at offset 11 and the byte \<open>03\<close> at offset 12, the call
  resolves with a balance equal to 1000.
\<close>

theorem read_service_balance_1000:
  assumes "read_block idm [0x8b, 0x00] 0 1 st = (Resolved block, st')"
      and "length block = 16" and "block ! 11 = 0xe8" and "block ! 12 = 0x03"
  shows "read_service idm PROPERTIES st
     = (Returns (Resolved (Some \<lparr>balance = Num 1000\<rparr>)), st')"
proof -
  have s: "js_shl 0 8 = 0" "js_shl 3 8 = 768"
    by code_simp+
  have "read_number block 11 2 ''LE'' = Num 1000"
    using assms(2-4) by (simp add: read_number_LE2 s)
  then show ?thesis using assms(1)
    by (simp add: read_service_def PROPERTIES_def PROPERTIES_processing_def
        falsy_string_def falsy_number_def)
qed

text \<open>
  The example card answers Request Service and then the read of block 0 with the
  balance block: the read resolves with that block and the service read with 1000.
\<close>

theorem read_service_balance_1000_witness:
  "read_block example_idm [0x8b, 0x00] 0 1
       (fresh_reader (reply_service_present @ reply_block block_balance 0x56))
     = (Resolved block_balance,
        \<lparr>busy = False, timeout = 1000, rx = [],
         tx = [[0x00, 0x00, 0xff, 0x11, 0xef],
               [0xd4, 0xa0, 0xd0, 0x07, 0x0d, 0x02, 0x01, 0x02, 0x03, 0x04, 0x05, 0x06, 0x07,
                0x08, 0x01, 0x8b, 0x00],
               [0xf6, 0x00],
               [0x00, 0x00, 0xff, 0x14, 0xec],
               [0xd4, 0xa0, 0xd0, 0x07, 0x10, 0x06, 0x01, 0x02, 0x03, 0x04, 0x05, 0x06, 0x07,
                0x08, 0x01, 0x8b, 0x00, 0x01, 0x80, 0x00],
               [0x6e, 0x00]],
         calls = [request_service_call, read_without_encryption_call 0]\<rparr>)
   \<and> length block_balance = 16 \<and> block_balance ! 11 = 0xe8 \<and> block_balance ! 12 = 0x03
   \<and> fst (read_service example_idm PROPERTIES
        (fresh_reader (reply_service_present @ reply_block block_balance 0x56)))
     = Returns (Resolved (Some \<lparr>balance = Num 1000\<rparr>))"
proof -
  let ?st = "fresh_reader (reply_service_present @ reply_block block_balance 0x56)"
  let ?st' = "\<lparr>busy = False, timeout = 1000, rx = [],
         tx = [[0x00, 0x00, 0xff, 0x11, 0xef],
               [0xd4, 0xa0, 0xd0, 0x07, 0x0d, 0x02, 0x01, 0x02, 0x03, 0x04, 0x05, 0x06, 0x07,
                0x08, 0x01, 0x8b, 0x00],
               [0xf6, 0x00],
               [0x00, 0x00, 0xff, 0x14, 0xec],
               [0xd4, 0xa0, 0xd0, 0x07, 0x10, 0x06, 0x01, 0x02, 0x03, 0x04, 0x05, 0x06, 0x07,
                0x08, 0x01, 0x8b, 0x00, 0x01, 0x80, 0x00],
               [0x6e, 0x00]],
         calls = [request_service_call, read_without_encryption_call 0]\<rparr>"
  have h1: "read_block example_idm [0x8b, 0x00] 0 1 ?st = (Resolved block_balance, ?st')"
    by code_simp
  have h2: "length block_balance = 16" and h3: "block_balance ! 11 = 0xe8"
    and h4: "block_balance ! 12 = 0x03"
    by (simp_all add: block_balance_def)
  show ?thesis
    using read_service_balance_1000 [OF h1 h2 h3 h4] h1 h2 h3 h4 by simp
qed

text \<open>
  C10. For every descriptor whose \<open>service_code\<close> field is absent or falsy, or whose
  \<open>blocks\<close> field is absent or zero, \<open>read_service\<close> throws a synchronous exception, a
  plain string and not a rejected promise, before any transport I/O and before any
  block is read: the reader is left as it was.
\<close>

theorem read_service_throws:
  "service_code d = None \<or> service_code d = Some [] \<or> blocks d = None \<or> blocks d = Some 0
   \<Longrightarrow> read_service idm d st
       = (Throws ''expecting service_dict to be {service_code:xx, blocks:xx}'', st)"
  by (auto simp add: read_service_def falsy_string_def falsy_number_def)

text \<open>The balance descriptor with its block count set to 0.\<close>

theorem read_service_throws_witness:
  "blocks (PROPERTIES\<lparr>blocks := Some 0\<rparr>) = Some 0
   \<and> read_service example_idm (PROPERTIES\<lparr>blocks := Some 0\<rparr>) (fresh_reader [])
     = (Throws ''expecting service_dict to be {service_code:xx, blocks:xx}'', fresh_reader [])"
  using read_service_throws [of "PROPERTIES\<lparr>blocks := Some 0\<rparr>" example_idm "fresh_reader []"]
  by simp

end
